theory Spec2Isabelle
  imports Complex_Main "HOL-Library.Multiset" "HOL-Library.Product_Lexorder"
    "HOL-Library.Log_Nat"
begin

section \<open>Text helpers\<close>

text \<open>White space (space, tab, line feed, carriage return) and trimming at both ends.\<close>

definition is_space :: "char \<Rightarrow> bool" where
  "is_space c = (c = CHR '' '' \<or> c = CHR 0x09 \<or> c = CHR 0x0A \<or> c = CHR 0x0D)"

definition trim :: "string \<Rightarrow> string" where
  "trim s = rev (dropWhile is_space (rev (dropWhile is_space s)))"

section \<open>Ingestion core: the unified job record and the deduplicator\<close>

text \<open>
  Modelled from the spec: the ingestion core (unified job record, deduplicator) has no
  code among the repository's sources, which hold the React frontend and the API notes.
  The eight providers, in the spec's source-priority order.
\<close>

datatype source = Adzuna | TheMuse | USAJobs | Arbeitnow | Remotive | Jobicy | SerpAPI | RemoteOK

text \<open>
  Modelled from the spec: the Unified Job Record of the data model. \<open>tags\<close> is a set of
  strings, the salary bounds are optional non-negative integers (USD per year),
  \<open>posted_at\<close> is an optional timestamp (seconds since the epoch) and \<open>extra\<close> is the
  source-specific mapping, carried opaquely.
\<close>

record job_record =
  source_id :: string
  source_name :: source
  title :: string
  company :: string
  location :: string
  description :: string
  tags :: "string set"
  url :: string
  salary_min :: "nat option"
  salary_max :: "nat option"
  posted_at :: "int option"
  extra :: "(string \<times> string) list"

text \<open>
  Modelled from the spec: text normalisation, "sequences of whitespace collapse to single
  spaces; leading/trailing whitespace trimmed", and ASCII lower-casing.
\<close>

fun collapse_spaces :: "string \<Rightarrow> string" where
  "collapse_spaces [] = []"
| "collapse_spaces [c] = [if is_space c then CHR '' '' else c]"
| "collapse_spaces (c # d # cs) =
     (if is_space c
      then (if is_space d then collapse_spaces (d # cs) else CHR '' '' # collapse_spaces (d # cs))
      else c # collapse_spaces (d # cs))"

definition normalize_text :: "string \<Rightarrow> string" where
  "normalize_text s = collapse_spaces (trim s)"

definition is_upper :: "char \<Rightarrow> bool" where
  "is_upper c = (let n = (of_char c :: nat) in 65 \<le> n \<and> n \<le> 90)"

definition lower_char :: "char \<Rightarrow> char" where
  "lower_char c =
     (if is_upper c
      then (case c of Char b0 b1 b2 b3 b4 b5 b6 b7 \<Rightarrow> Char b0 b1 b2 b3 b4 True b6 b7)
      else c)"

definition lowercase :: "string \<Rightarrow> string" where
  "lowercase s = map lower_char s"

text \<open>
  Modelled from the spec: the deduplication key, the "derived tuple (normalized lowercase
  title, normalized lowercase company, normalized location)".
\<close>

definition dedupe_key :: "job_record \<Rightarrow> string \<times> string \<times> string" where
  "dedupe_key r =
     (lowercase (normalize_text (title r)), lowercase (normalize_text (company r)),
      normalize_text (location r))"

text \<open>
  Modelled from the spec: "Groups records by the deduplication key". A group is its first
  member and the later members with the same key, in input order; the groups come in the
  order of their first members.
\<close>

fun group_by_key :: "job_record list \<Rightarrow> (job_record \<times> job_record list) list" where
  "group_by_key [] = []"
| "group_by_key (r # rs) =
     (r, filter (\<lambda>m. dedupe_key m = dedupe_key r) rs)
       # group_by_key (filter (\<lambda>m. dedupe_key m \<noteq> dedupe_key r) rs)"

text \<open>
  Modelled from the spec: the merge policy. The base is the member with complete salary
  data (\<open>salary_min\<close> and \<open>salary_max\<close> both present); if tied, the member with a
  non-empty description; if still tied, the earliest source in the fixed priority order
  Adzuna, The Muse, USAJobs, Arbeitnow, Remotive, Jobicy, SerpAPI, RemoteOK. Among members
  that tie on all three the first in input order stays. The tags of the whole group are
  united into the surviving record.
\<close>

definition salary_complete :: "job_record \<Rightarrow> bool" where
  "salary_complete r = (salary_min r \<noteq> None \<and> salary_max r \<noteq> None)"

fun source_priority :: "source \<Rightarrow> nat" where
  "source_priority Adzuna = 0"
| "source_priority TheMuse = 1"
| "source_priority USAJobs = 2"
| "source_priority Arbeitnow = 3"
| "source_priority Remotive = 4"
| "source_priority Jobicy = 5"
| "source_priority SerpAPI = 6"
| "source_priority RemoteOK = 7"

definition preferred :: "job_record \<Rightarrow> job_record \<Rightarrow> bool" where
  "preferred a b =
     (if salary_complete a \<noteq> salary_complete b then salary_complete a
      else if (description a \<noteq> []) \<noteq> (description b \<noteq> []) then description a \<noteq> []
      else source_priority (source_name a) < source_priority (source_name b))"

fun select_base :: "job_record \<Rightarrow> job_record list \<Rightarrow> job_record" where
  "select_base b [] = b"
| "select_base b (m # ms) = select_base (if preferred m b then m else b) ms"

definition merge_group :: "job_record \<times> job_record list \<Rightarrow> job_record" where
  "merge_group g =
     (case g of (r, ms) \<Rightarrow> (select_base r ms)\<lparr>tags := (\<Union>m \<in> set (r # ms). tags m)\<rparr>)"

text \<open>
  Modelled from the spec: the output order, "by descending \<open>posted_at\<close>, undated records
  last, ties broken by source-name alphabetical order". \<open>source_alpha\<close> is the rank of the
  provider's name in alphabetical order (Adzuna, Arbeitnow, Jobicy, RemoteOK, Remotive,
  SerpAPI, The Muse, USAJobs); the key is compared lexicographically.
\<close>

fun source_alpha :: "source \<Rightarrow> nat" where
  "source_alpha Adzuna = 0"
| "source_alpha Arbeitnow = 1"
| "source_alpha Jobicy = 2"
| "source_alpha RemoteOK = 3"
| "source_alpha Remotive = 4"
| "source_alpha SerpAPI = 5"
| "source_alpha TheMuse = 6"
| "source_alpha USAJobs = 7"

definition order_key :: "job_record \<Rightarrow> nat \<times> int \<times> nat" where
  "order_key r =
     (case posted_at r of
        Some t \<Rightarrow> (0, - t, source_alpha (source_name r))
      | None \<Rightarrow> (1, 0, source_alpha (source_name r)))"

text \<open>
  Modelled from the spec: \<open>dedupe\<close>, one surviving record per group, in the contract's
  order. The sort is the stable insertion sort of the library, so survivors with equal
  keys keep the order of their groups.
\<close>

definition dedupe :: "job_record list \<Rightarrow> job_record list" where
  "dedupe records = sort_key order_key (map merge_group (group_by_key records))"

text \<open>Three postings, two of them the same job seen by two providers.\<close>

definition ex_remoteok :: job_record where
  "ex_remoteok =
     \<lparr>source_id = ''r1'', source_name = RemoteOK, title = ''software  engineer '',
      company = ''ACME'', location = ''Seattle'', description = ''Build things'',
      tags = {''remote''}, url = ''https://remoteok.example/r1'', salary_min = None,
      salary_max = None, posted_at = Some 200, extra = []\<rparr>"

definition ex_jobicy :: job_record where
  "ex_jobicy =
     \<lparr>source_id = ''j1'', source_name = Jobicy, title = ''Data Engineer'', company = ''Beta'',
      location = ''Remote'', description = ''Pipelines'', tags = {},
      url = ''https://jobicy.example/j1'', salary_min = None, salary_max = None,
      posted_at = None, extra = []\<rparr>"

definition ex_adzuna :: job_record where
  "ex_adzuna =
     \<lparr>source_id = ''a1'', source_name = Adzuna, title = ''Software Engineer'',
      company = ''Acme'', location = ''Seattle'', description = '''', tags = {''python''},
      url = ''https://adzuna.example/a1'', salary_min = Some 90000, salary_max = Some 120000,
      posted_at = Some 100, extra = []\<rparr>"

section \<open>Frontend: JavaScript values as the forms see them\<close>

text \<open>
  The form code of the frontend relies on JavaScript's truthiness, on \<^verbatim>\<open>Number(...)\<close> and
  on the relational operators. A number is a rational (the exact value of a finite
  double), an infinity or NaN; a string is read to the nearest double. Negative zero is
  identified with zero: both are falsy, compare alike and are sent as \<^verbatim>\<open>0\<close>. A string
  is the list of its UTF-8 bytes. Objects and arrays are not modelled.
\<close>

datatype jsnum = Num rat | PosInfinity | NegInfinity | NaN

datatype jsval = VNum jsnum | VStr string | VUndefined | VNull

text \<open>ToBoolean: \<^verbatim>\<open>0\<close>, \<^verbatim>\<open>NaN\<close>, \<^verbatim>\<open>""\<close>, \<^verbatim>\<open>undefined\<close> and \<^verbatim>\<open>null\<close> are falsy.\<close>

fun truthy :: "jsval \<Rightarrow> bool" where
  "truthy (VNum (Num n)) = (n \<noteq> 0)"
| "truthy (VNum PosInfinity) = True"
| "truthy (VNum NegInfinity) = True"
| "truthy (VNum NaN) = False"
| "truthy (VStr s) = (s \<noteq> [])"
| "truthy VUndefined = False"
| "truthy VNull = False"

text \<open>
  The double nearest to a rational, ties to the even significand. \<open>binade x\<close> is the
  exponent \<open>e\<close> with \<open>2 powi e \<le> x < 2 powi (e + 1)\<close> for positive \<open>x\<close>; a double has 53
  significant bits, exponents from -1022 (below that the spacing stays that of the
  subnormals) and overflows to an infinity from \<open>2 ^ 1024\<close> on.
\<close>

definition round_half_even :: "rat \<Rightarrow> int" where
  "round_half_even x =
     (let f = \<lfloor>x\<rfloor>; d = x - of_int f
      in if d < 1 / 2 then f else if 1 / 2 < d then f + 1 else if even f then f else f + 1)"

definition binade :: "rat \<Rightarrow> int" where
  "binade x = (if 1 \<le> x then bitlen \<lfloor>x\<rfloor> - 1 else - bitlen (\<lceil>1 / x\<rceil> - 1))"

definition to_double :: "rat \<Rightarrow> jsnum" where
  "to_double x =
     (if x = 0 then Num 0
      else
        let a = \<bar>x\<bar>;
            e = max (binade a) (- 1022);
            ulp = 2 powi (e - 52);
            r = of_int (round_half_even (a / ulp)) * ulp
        in if 2 ^ 1024 \<le> r then (if x < 0 then NegInfinity else PosInfinity)
           else Num (if x < 0 then - r else r))"

fun negate :: "jsnum \<Rightarrow> jsnum" where
  "negate (Num x) = Num (- x)"
| "negate PosInfinity = NegInfinity"
| "negate NegInfinity = PosInfinity"
| "negate NaN = NaN"

text \<open>
  The white space and line terminators that StringToNumber strips at both ends, each in
  UTF-8: TAB, LF, VT, FF, CR, SP, NBSP, U+1680, U+2000 to U+200A, U+2028, U+2029, U+202F,
  U+205F, U+3000 and U+FEFF.
\<close>

definition js_white_space :: "string list" where
  "js_white_space =
     [[CHR 0x09], [CHR 0x0A], [CHR 0x0B], [CHR 0x0C], [CHR 0x0D], [CHR 0x20],
      [CHR 0xC2, CHR 0xA0],
      [CHR 0xE1, CHR 0x9A, CHR 0x80],
      [CHR 0xE2, CHR 0x80, CHR 0x80], [CHR 0xE2, CHR 0x80, CHR 0x81],
      [CHR 0xE2, CHR 0x80, CHR 0x82], [CHR 0xE2, CHR 0x80, CHR 0x83],
      [CHR 0xE2, CHR 0x80, CHR 0x84], [CHR 0xE2, CHR 0x80, CHR 0x85],
      [CHR 0xE2, CHR 0x80, CHR 0x86], [CHR 0xE2, CHR 0x80, CHR 0x87],
      [CHR 0xE2, CHR 0x80, CHR 0x88], [CHR 0xE2, CHR 0x80, CHR 0x89],
      [CHR 0xE2, CHR 0x80, CHR 0x8A],
      [CHR 0xE2, CHR 0x80, CHR 0xA8], [CHR 0xE2, CHR 0x80, CHR 0xA9],
      [CHR 0xE2, CHR 0x80, CHR 0xAF],
      [CHR 0xE2, CHR 0x81, CHR 0x9F],
      [CHR 0xE3, CHR 0x80, CHR 0x80],
      [CHR 0xEF, CHR 0xBB, CHR 0xBF]]"

fun strip_white :: "string list \<Rightarrow> string \<Rightarrow> string" where
  "strip_white ws [] = []"
| "strip_white ws (c # cs) =
     (case find (\<lambda>w. w \<noteq> [] \<and> take (length w) (c # cs) = w) ws of
        None \<Rightarrow> c # cs
      | Some w \<Rightarrow> strip_white ws (drop (length w - 1) cs))"

definition js_trim :: "string \<Rightarrow> string" where
  "js_trim s = rev (strip_white (map rev js_white_space) (rev (strip_white js_white_space s)))"

text \<open>The value of a digit, up to base 16, and the value of a string of digits.\<close>

definition digit_val :: "char \<Rightarrow> nat option" where
  "digit_val c =
     (let n = (of_char c :: nat)
      in if 48 \<le> n \<and> n \<le> 57 then Some (n - 48)
         else if 97 \<le> n \<and> n \<le> 102 then Some (n - 87)
         else if 65 \<le> n \<and> n \<le> 70 then Some (n - 55)
         else None)"

definition is_digit_in :: "nat \<Rightarrow> char \<Rightarrow> bool" where
  "is_digit_in b c = (case digit_val c of Some d \<Rightarrow> d < b | None \<Rightarrow> False)"

definition is_digit :: "char \<Rightarrow> bool" where
  "is_digit c = is_digit_in 10 c"

fun digits_val :: "nat \<Rightarrow> nat \<Rightarrow> string \<Rightarrow> nat" where
  "digits_val b acc [] = acc"
| "digits_val b acc (c # cs) =
     digits_val b (b * acc + (case digit_val c of Some d \<Rightarrow> d | None \<Rightarrow> 0)) cs"

text \<open>
  The non-decimal integer literals: \<^verbatim>\<open>0x\<close>, \<^verbatim>\<open>0o\<close> or \<^verbatim>\<open>0b\<close> (either case) and at least
  one digit of that base; they take no sign.
\<close>

definition radix_of :: "char \<Rightarrow> nat option" where
  "radix_of c =
     (if c = CHR ''x'' \<or> c = CHR ''X'' then Some 16
      else if c = CHR ''o'' \<or> c = CHR ''O'' then Some 8
      else if c = CHR ''b'' \<or> c = CHR ''B'' then Some 2
      else None)"

definition radix_literal :: "string \<Rightarrow> jsnum option" where
  "radix_literal t =
     (case t of
        z # p # ds \<Rightarrow>
          (case radix_of p of
             Some b \<Rightarrow>
               if z = CHR ''0'' \<and> ds \<noteq> [] \<and> list_all (is_digit_in b) ds
               then Some (to_double (of_nat (digits_val b 0 ds))) else None
           | None \<Rightarrow> None)
      | _ \<Rightarrow> None)"

text \<open>
  The decimal literals: digits with an optional fraction, or a fraction alone, then an
  optional exponent part (\<^verbatim>\<open>e\<close> or \<^verbatim>\<open>E\<close>, an optional sign, at least one digit); or
  \<^verbatim>\<open>Infinity\<close>. A sign may precede either.
\<close>

definition signed_digits :: "string \<Rightarrow> int option" where
  "signed_digits t =
     (let ds = (case t of c # cs \<Rightarrow> if c = CHR ''+'' \<or> c = CHR ''-'' then cs else t | [] \<Rightarrow> [])
      in if ds \<noteq> [] \<and> list_all is_digit ds
         then Some (if take 1 t = ''-'' then - int (digits_val 10 0 ds) else int (digits_val 10 0 ds))
         else None)"

definition exponent_part :: "string \<Rightarrow> int option" where
  "exponent_part t =
     (case t of
        [] \<Rightarrow> Some 0
      | c # cs \<Rightarrow> if c = CHR ''e'' \<or> c = CHR ''E'' then signed_digits cs else None)"

definition decimal_literal :: "string \<Rightarrow> jsnum" where
  "decimal_literal t =
     (if t = ''Infinity'' then PosInfinity
      else
        let ip = takeWhile is_digit t;
            r1 = dropWhile is_digit t;
            after_dot = (case r1 of c # cs \<Rightarrow> if c = CHR ''.'' then Some cs else None | [] \<Rightarrow> None);
            fp = (case after_dot of Some cs \<Rightarrow> takeWhile is_digit cs | None \<Rightarrow> []);
            r2 = (case after_dot of Some cs \<Rightarrow> dropWhile is_digit cs | None \<Rightarrow> r1)
        in if ip = [] \<and> fp = [] then NaN
           else
             (case exponent_part r2 of
                None \<Rightarrow> NaN
              | Some e \<Rightarrow>
                  to_double
                    ((of_nat (digits_val 10 0 ip) + of_nat (digits_val 10 0 fp) / 10 ^ length fp)
                       * 10 powi e)))"

definition str_decimal_literal :: "string \<Rightarrow> jsnum" where
  "str_decimal_literal t =
     (case t of
        [] \<Rightarrow> NaN
      | c # cs \<Rightarrow>
          if c = CHR ''-'' then negate (decimal_literal cs)
          else if c = CHR ''+'' then decimal_literal cs
          else decimal_literal t)"

text \<open>
  StringToNumber: the empty or all-white string is \<^verbatim>\<open>0\<close>, a numeric literal is the
  double nearest to its value, anything else is NaN.
\<close>

definition str_to_number :: "string \<Rightarrow> jsnum" where
  "str_to_number s =
     (let t = js_trim s
      in if t = [] then Num 0
         else (case radix_literal t of Some v \<Rightarrow> v | None \<Rightarrow> str_decimal_literal t))"

text \<open>\<^verbatim>\<open>Number(v)\<close>.\<close>

fun Number :: "jsval \<Rightarrow> jsnum" where
  "Number (VNum n) = n"
| "Number (VStr s) = str_to_number s"
| "Number VUndefined = NaN"
| "Number VNull = Num 0"

text \<open>\<^verbatim>\<open>a < b\<close> and \<^verbatim>\<open>a > b\<close> on numbers: every comparison with NaN is false.\<close>

fun js_lt :: "jsnum \<Rightarrow> jsnum \<Rightarrow> bool" where
  "js_lt (Num a) (Num b) = (a < b)"
| "js_lt (Num a) PosInfinity = True"
| "js_lt NegInfinity (Num b) = True"
| "js_lt NegInfinity PosInfinity = True"
| "js_lt _ _ = False"

definition js_gt :: "jsnum \<Rightarrow> jsnum \<Rightarrow> bool" where
  "js_gt a b = js_lt b a"

section \<open>Frontend: the preferences form (PreferencesForm)\<close>

text \<open>
  The values of the form. A salary field holds a number while it still has the value it
  was given by \<^verbatim>\<open>defaultValues\<close> or \<^verbatim>\<open>reset(initialData)\<close>, and the string of the
  input once the user has typed into it (an emptied input is the empty string).
\<close>

record form_data =
  target_roles :: "string list"
  desired_locations :: "string list"
  skills :: "string list"
  salary_min :: jsval
  salary_max :: jsval

text \<open>\<^verbatim>\<open>useForm({ defaultValues: ... })\<close>.\<close>

definition defaultValues :: form_data where
  "defaultValues =
     \<lparr>target_roles = [], desired_locations = [], skills = [],
      salary_min = VNum (Num 0), salary_max = VNum (Num 200000)\<rparr>"

text \<open>A validator returns \<^verbatim>\<open>true\<close> or the message to show.\<close>

datatype validation = Valid | Invalid string

text \<open>The message "Must be (greater-than-or-equal sign) Minimum", the sign in UTF-8.\<close>

definition msg_must_be_ge_minimum :: string where
  "msg_must_be_ge_minimum = ''Must be '' @ [CHR 0xE2, CHR 0x89, CHR 0xA5] @ '' Minimum''"

text \<open>
  The \<^verbatim>\<open>validate\<close> function registered for \<^verbatim>\<open>salary_max\<close>; \<open>min\<close> is
  \<^verbatim>\<open>watch('salary_min')\<close>. The chain \<^verbatim>\<open>value && min && Number(value) < Number(min)\<close>
  is truthy exactly when all three operands are.
\<close>

definition validate_salary_max :: "jsval \<Rightarrow> jsval \<Rightarrow> validation" where
  "validate_salary_max v m =
     (if truthy v \<and> truthy m \<and> js_lt (Number v) (Number m) then Invalid msg_must_be_ge_minimum
      else if js_gt (Number v) (Num 500000) then Invalid ''Max $500k''
      else Valid)"

text \<open>
  The rules given to react-hook-form for the other fields: \<^verbatim>\<open>required\<close> on
  \<^verbatim>\<open>target_roles\<close>, \<^verbatim>\<open>min: 0\<close> and \<^verbatim>\<open>max: 500000\<close> on \<^verbatim>\<open>salary_min\<close>.
  The library skips \<^verbatim>\<open>min\<close>/\<^verbatim>\<open>max\<close> on an empty input and compares the numeric
  value otherwise.
\<close>

definition validate_target_roles :: "string list \<Rightarrow> validation" where
  "validate_target_roles rs = (if rs = [] then Invalid ''At least one role is required'' else Valid)"

definition validate_salary_min :: "jsval \<Rightarrow> validation" where
  "validate_salary_min v =
     (if v = VStr [] \<or> v = VUndefined \<or> v = VNull then Valid
      else if js_gt (Number v) (Num 500000) then Invalid ''Max $500k''
      else if js_lt (Number v) (Num 0) then Invalid ''Salary cannot be negative''
      else Valid)"

text \<open>\<^verbatim>\<open>onSubmit\<close>: the payload handed to \<^verbatim>\<open>onSearch\<close>.\<close>

definition onSubmit :: "form_data \<Rightarrow> form_data" where
  "onSubmit d = d\<lparr>salary_min := VNum (Number (salary_min d)), salary_max := VNum (Number (salary_max d))\<rparr>"

text \<open>
  \<^verbatim>\<open>handleSubmit(onSubmit)\<close>: the callback runs only when every rule holds; otherwise
  nothing reaches \<^verbatim>\<open>onSearch\<close>.
\<close>

definition handleSubmit :: "form_data \<Rightarrow> form_data option" where
  "handleSubmit d =
     (if validate_target_roles (target_roles d) = Valid
         \<and> validate_salary_min (salary_min d) = Valid
         \<and> validate_salary_max (salary_max d) (salary_min d) = Valid
      then Some (onSubmit d) else None)"

section \<open>Frontend: the search page (Search)\<close>

text \<open>The three pieces of component state that \<^verbatim>\<open>handleSearch\<close> writes.\<close>

record 'r search_state =
  searching :: bool
  searchError :: jsval
  results :: 'r

text \<open>
  What \<^verbatim>\<open>api.post('/jobs/search', criteria)\<close> settles to: a response with its
  \<^verbatim>\<open>data\<close>, or a rejection. A rejection may carry no response, a response without data,
  or data whose \<^verbatim>\<open>detail\<close> is any value (\<^verbatim>\<open>undefined\<close> when the field is missing).
\<close>

datatype api_error = NoResponse | NoData | Detail jsval

datatype 'r post_outcome = Resolved 'r | Rejected api_error

text \<open>\<^verbatim>\<open>err.response?.data?.detail\<close>.\<close>

fun err_detail :: "api_error \<Rightarrow> jsval" where
  "err_detail NoResponse = VUndefined"
| "err_detail NoData = VUndefined"
| "err_detail (Detail v) = v"

text \<open>\<^verbatim>\<open>a || b\<close>.\<close>

definition js_or :: "jsval \<Rightarrow> jsval \<Rightarrow> jsval" where
  "js_or a b = (if truthy a then a else b)"

definition handleSearch :: "'r search_state \<Rightarrow> 'r post_outcome \<Rightarrow> 'r search_state" where
  "handleSearch s out =
     (let s1 = s\<lparr>searching := True\<rparr>;
          s2 = s1\<lparr>searchError := VStr ''''\<rparr>;
          s3 = (case out of
                  Resolved d \<Rightarrow> s2\<lparr>results := d\<rparr>
                | Rejected err \<Rightarrow>
                    s2\<lparr>searchError := js_or (err_detail err) (VStr ''Failed to fetch job matches.'')\<rparr>)
      in s3\<lparr>searching := False\<rparr>)"

section \<open>Properties of the deduplicator\<close>

text \<open>The base is a member of its group, so the survivor has the group's key.\<close>

lemma select_base_mem: "select_base b ms \<in> set (b # ms)"
  by (induction ms arbitrary: b) auto

lemma merge_group_key:
  assumes "\<forall>m \<in> set ms. dedupe_key m = dedupe_key r"
  shows "dedupe_key (merge_group (r, ms)) = dedupe_key r"
proof -
  have "select_base r ms \<in> set (r # ms)" by (rule select_base_mem)
  then have "dedupe_key (select_base r ms) = dedupe_key r"
    using assms by auto
  then show ?thesis
    by (simp add: merge_group_def dedupe_key_def)
qed

lemma merge_group_single: "merge_group (r, []) = r"
  by (simp add: merge_group_def)

lemma group_keys_subset:
  "set (map (dedupe_key \<circ> merge_group) (group_by_key rs)) \<subseteq> dedupe_key ` set rs"
proof (induction rs rule: group_by_key.induct)
  case 1
  then show ?case by simp
next
  case (2 r rs)
  have "dedupe_key (merge_group (r, filter (\<lambda>m. dedupe_key m = dedupe_key r) rs)) = dedupe_key r"
    by (rule merge_group_key) simp
  with 2 show ?case by auto
qed

lemma group_keys_distinct: "distinct (map (dedupe_key \<circ> merge_group) (group_by_key rs))"
proof (induction rs rule: group_by_key.induct)
  case 1
  then show ?case by simp
next
  case (2 r rs)
  let ?rest = "filter (\<lambda>m. dedupe_key m \<noteq> dedupe_key r) rs"
  have k: "dedupe_key (merge_group (r, filter (\<lambda>m. dedupe_key m = dedupe_key r) rs)) = dedupe_key r"
    by (rule merge_group_key) simp
  have "dedupe_key r \<notin> dedupe_key ` set ?rest" by auto
  then have "dedupe_key r \<notin> set (map (dedupe_key \<circ> merge_group) (group_by_key ?rest))"
    using group_keys_subset [of ?rest] by blast
  with 2 k show ?case by simp
qed

lemma group_by_key_distinct:
  "distinct (map dedupe_key ys) \<Longrightarrow> group_by_key ys = map (\<lambda>y. (y, [])) ys"
proof (induction ys)
  case Nil
  then show ?case by simp
next
  case (Cons y ys)
  then have n: "\<forall>m \<in> set ys. dedupe_key m \<noteq> dedupe_key y"
    by (auto simp: image_iff)
  then have "filter (\<lambda>m. dedupe_key m = dedupe_key y) ys = []"
    and "filter (\<lambda>m. dedupe_key m \<noteq> dedupe_key y) ys = ys"
    by (simp_all add: filter_empty_conv filter_id_conv)
  with Cons show ?case by simp
qed

lemma dedupe_keys_distinct: "distinct (map dedupe_key (dedupe rs))"
proof -
  have "mset (map dedupe_key (dedupe rs)) = mset (map (dedupe_key \<circ> merge_group) (group_by_key rs))"
    by (simp add: dedupe_def multiset.map_comp)
  then show ?thesis
    using group_keys_distinct [of rs] mset_eq_imp_distinct_iff by blast
qed

lemma dedupe_sorted: "sorted (map order_key (dedupe rs))"
  by (simp add: dedupe_def)

text \<open>
  C1. Deduplication is idempotent: for every sequence \<open>X\<close> of unified job records,
  \<open>dedupe (dedupe X)\<close> is exactly \<open>dedupe X\<close>, the same records in the same order.
\<close>

theorem dedupe_idempotent: "dedupe (dedupe X) = dedupe X"
proof -
  let ?Y = "dedupe X"
  have "map merge_group (group_by_key ?Y) = ?Y"
    by (simp add: group_by_key_distinct [OF dedupe_keys_distinct] merge_group_single comp_def)
  then have "dedupe ?Y = sort_key order_key ?Y"
    by (simp add: dedupe_def)
  also have "\<dots> = ?Y"
    by (rule sort_key_id_if_sorted) (rule dedupe_sorted)
  finally show ?thesis .
qed

lemma ex_keys:
  "dedupe_key ex_remoteok = (''software engineer'', ''acme'', ''Seattle'')"
  "dedupe_key ex_jobicy = (''data engineer'', ''beta'', ''Remote'')"
  "dedupe_key ex_adzuna = (''software engineer'', ''acme'', ''Seattle'')"
  by (simp_all add: ex_remoteok_def ex_jobicy_def ex_adzuna_def dedupe_key_def lowercase_def
      lower_char_def is_upper_def normalize_text_def trim_def is_space_def)

lemma ex_groups:
  "group_by_key [ex_remoteok, ex_jobicy, ex_adzuna] = [(ex_remoteok, [ex_adzuna]), (ex_jobicy, [])]"
  by (simp add: ex_keys)

lemma ex_merge:
  "merge_group (ex_remoteok, [ex_adzuna]) = ex_adzuna\<lparr>tags := {''remote'', ''python''}\<rparr>"
  by (simp add: merge_group_def preferred_def salary_complete_def ex_adzuna_def ex_remoteok_def)

lemma ex_order:
  "order_key (ex_adzuna\<lparr>tags := {''remote'', ''python''}\<rparr>) = (0, - 100, 0)"
  "order_key ex_jobicy = (1, 0, 2)"
  by (simp_all add: order_key_def ex_adzuna_def ex_jobicy_def)

lemma ex_dedupe:
  "dedupe [ex_remoteok, ex_jobicy, ex_adzuna]
     = [ex_adzuna\<lparr>tags := {''remote'', ''python''}\<rparr>, ex_jobicy]"
  unfolding dedupe_def ex_groups by (simp add: ex_merge merge_group_single ex_order)

theorem dedupe_idempotent_witness:
  "dedupe (dedupe [ex_remoteok, ex_jobicy, ex_adzuna])
     = [ex_adzuna\<lparr>tags := {''remote'', ''python''}\<rparr>, ex_jobicy]"
  using dedupe_idempotent [of "[ex_remoteok, ex_jobicy, ex_adzuna]"] by (simp only: ex_dedupe)

section \<open>Properties of the frontend\<close>

text \<open>An integer below \<open>2 ^ 53\<close> in size is a double, so reading its digits is exact.\<close>

lemma round_half_even_of_int: "round_half_even (of_int m) = m"
  by (simp add: round_half_even_def)

lemma to_double_of_int:
  assumes "\<bar>n\<bar> < 2 ^ 53"
  shows "to_double (of_int n) = Num (of_int n)"
proof (cases "n = 0")
  case True
  then show ?thesis by (simp add: to_double_def)
next
  case False
  define b where "b = bitlen \<bar>n\<bar>"
  define k where "k = nat (53 - b)"
  define x :: rat where "x = of_int n"
  define a :: rat where "a = \<bar>x\<bar>"
  have a: "a = of_int \<bar>n\<bar>" by (simp add: a_def x_def)
  have pos: "1 \<le> \<bar>n\<bar>" using False by simp
  have "b \<noteq> 0"
    using False by (simp add: b_def bitlen_eq_zero_iff)
  moreover have "0 \<le> b"
    by (simp add: b_def bitlen_nonneg)
  ultimately have b1: "1 \<le> b"
    by linarith
  have b53: "b \<le> 53"
    using assms by (simp add: b_def bitlen_le_iff_power)
  have a1: "1 \<le> a"
    unfolding a using pos by (simp only: of_int_1_le_iff)
  have fl: "\<lfloor>a\<rfloor> = \<bar>n\<bar>"
    unfolding a by (rule floor_of_int)
  have bin: "binade a = b - 1"
    using a1 by (simp only: binade_def if_True fl b_def)
  have e: "max (binade a) (- 1022) = b - 1"
    using bin b1 by simp
  have ulp: "(2::rat) powi (b - 1 - 52) = inverse (2 ^ k)"
    using b53 by (simp add: power_int_def k_def power_one_over inverse_eq_divide)
  have q: "a / inverse (2 ^ k) = of_int (\<bar>n\<bar> * 2 ^ k)"
    by (simp add: a divide_inverse)
  have r: "of_int (round_half_even (a / inverse (2 ^ k))) * inverse (2 ^ k) = a"
    unfolding q round_half_even_of_int by (simp add: a)
  have small: "\<not> (2 :: rat) ^ 1024 \<le> a"
  proof -
    have "a < 2 ^ 53"
      unfolding a using assms by (simp only: of_int_less_numeral_power_cancel_iff)
    also have "\<dots> \<le> 2 ^ 1024" by simp
    finally show ?thesis by simp
  qed
  have nz: "x \<noteq> 0" using False by (simp add: x_def)
  have "to_double x =
      (let e = max (binade a) (- 1022); ulp = 2 powi (e - 52);
           r = of_int (round_half_even (a / ulp)) * ulp
       in if 2 ^ 1024 \<le> r then (if x < 0 then NegInfinity else PosInfinity)
          else Num (if x < 0 then - r else r))"
    using nz unfolding to_double_def a_def by (simp only: if_False Let_def)
  also have "\<dots> = Num (if x < 0 then - a else a)"
    unfolding Let_def e ulp r using small by (simp only: if_False)
  also have "\<dots> = Num x"
    by (simp add: a_def)
  finally show ?thesis by (simp only: x_def)
qed

lemma js_trim_plain: "js_trim ''50000'' = ''50000''" "js_trim '''' = ''''"
  by (simp_all add: js_trim_def js_white_space_def)

lemma str_to_number_examples:
  "str_to_number ''50000'' = Num 50000"
  "str_to_number '''' = Num 0"
  using to_double_of_int [of 50000]
  by (simp_all add: str_to_number_def js_trim_plain radix_literal_def radix_of_def
      str_decimal_literal_def decimal_literal_def exponent_part_def is_digit_def is_digit_in_def
      digit_val_def)

text \<open>Other literals a number input or a stored preference can hold.\<close>

lemma str_to_number_literals:
  "str_to_number ''1e6'' = Num 1000000"
  "str_to_number ''0x1F'' = Num 31"
  "str_to_number '' -12 '' = Num (- 12)"
  "str_to_number ''5.'' = Num 5"
  "str_to_number ''Infinity'' = PosInfinity"
  "str_to_number ''12a'' = NaN"
  "str_to_number ''1e'' = NaN"
  "str_to_number ''-0x10'' = NaN"
  using to_double_of_int [of 1000000] to_double_of_int [of 31] to_double_of_int [of 12]
    to_double_of_int [of 5]
  by (simp_all add: str_to_number_def js_trim_def js_white_space_def radix_literal_def radix_of_def
      str_decimal_literal_def decimal_literal_def exponent_part_def signed_digits_def
      is_digit_def is_digit_in_def digit_val_def)

lemma bitlen_one: "bitlen 1 = 1"
  using bitlen_twopow_add_eq [of 0 0] by simp

lemma to_double_three_halves: "to_double (3 / 2) = Num (3 / 2)"
proof -
  have f: "\<lfloor>3 / 2 :: rat\<rfloor> = 1" by (rule floor_unique) simp_all
  have b: "binade (3 / 2) = 0" by (simp add: binade_def f bitlen_one)
  have u: "(2::rat) powi (- 52) = inverse (2 ^ 52)" by (simp add: power_int_def power_one_over inverse_eq_divide)
  show ?thesis
    using round_half_even_of_int [of 6755399441055744]
    by (simp add: to_double_def Let_def b u)
qed

lemma str_to_number_fraction: "str_to_number ''1.5'' = Num (3 / 2)"
  using to_double_three_halves
  by (simp add: str_to_number_def js_trim_def js_white_space_def radix_literal_def radix_of_def
      str_decimal_literal_def decimal_literal_def exponent_part_def
      is_digit_def is_digit_in_def digit_val_def)

text \<open>
  C9. The preferences form does not enforce \<open>salary_max \<ge> salary_min\<close> when a field is
  falsy: whenever the maximum or the minimum is falsy the validator of \<open>salary_max\<close> skips
  the comparison (only the cap of 500000 is left), and the form with minimum 50000 and
  maximum 0 is accepted, \<open>onSearch\<close> receiving the numbers 50000 and 0, the maximum
  below the minimum.
\<close>

theorem salary_max_not_enforced_when_falsy:
  "(\<forall>v m. \<not> truthy v \<or> \<not> truthy m \<longrightarrow>
       validate_salary_max v m = (if js_gt (Number v) (Num 500000) then Invalid ''Max $500k'' else Valid))
   \<and> validate_salary_max (VNum (Num 0)) (VStr ''50000'') = Valid
   \<and> (\<forall>d. target_roles d \<noteq> [] \<and> salary_min d = VStr ''50000'' \<and> salary_max d = VNum (Num 0) \<longrightarrow>
         (\<exists>p. handleSubmit d = Some p \<and> salary_min p = VNum (Num 50000) \<and> salary_max p = VNum (Num 0)
              \<and> js_lt (Number (salary_max p)) (Number (salary_min p))))"
proof (intro conjI allI impI)
  fix v m assume "\<not> truthy v \<or> \<not> truthy m"
  then show "validate_salary_max v m =
      (if js_gt (Number v) (Num 500000) then Invalid ''Max $500k'' else Valid)"
    by (auto simp: validate_salary_max_def)
next
  show "validate_salary_max (VNum (Num 0)) (VStr ''50000'') = Valid"
    by (simp add: validate_salary_max_def js_gt_def)
next
  fix d :: form_data
  assume d: "target_roles d \<noteq> [] \<and> salary_min d = VStr ''50000'' \<and> salary_max d = VNum (Num 0)"
  have n: "str_to_number ''50000'' = Num 50000"
    by (rule str_to_number_examples)
  have "handleSubmit d = Some (onSubmit d)"
    using d n
    by (simp add: handleSubmit_def validate_target_roles_def validate_salary_min_def
        validate_salary_max_def js_gt_def)
  moreover have "salary_min (onSubmit d) = VNum (Num 50000)" "salary_max (onSubmit d) = VNum (Num 0)"
    using d n by (simp_all add: onSubmit_def)
  ultimately show "\<exists>p. handleSubmit d = Some p \<and> salary_min p = VNum (Num 50000)
      \<and> salary_max p = VNum (Num 0) \<and> js_lt (Number (salary_max p)) (Number (salary_min p))"
    by simp
qed

theorem salary_max_not_enforced_when_falsy_witness:
  "\<not> truthy (VStr '''') \<and> validate_salary_max (VStr '''') (VStr ''50000'') = Valid
   \<and> handleSubmit \<lparr>target_roles = [''Software Engineer''], desired_locations = [], skills = [],
        salary_min = VStr ''50000'', salary_max = VNum (Num 0)\<rparr>
     = Some \<lparr>target_roles = [''Software Engineer''], desired_locations = [], skills = [],
        salary_min = VNum (Num 50000), salary_max = VNum (Num 0)\<rparr>"
proof -
  let ?d = "\<lparr>target_roles = [''Software Engineer''], desired_locations = [], skills = [],
        salary_min = VStr ''50000'', salary_max = VNum (Num 0)\<rparr>"
  note T = salary_max_not_enforced_when_falsy
  have f: "\<not> truthy (VStr '''')"
    by simp
  have e: "str_to_number '''' = Num 0"
    by (rule str_to_number_examples)
  have "validate_salary_max (VStr '''') (VStr ''50000'') =
      (if js_gt (Number (VStr '''')) (Num 500000) then Invalid ''Max $500k'' else Valid)"
    using T [THEN conjunct1, rule_format, of "VStr ''''" "VStr ''50000''"] f by blast
  then have a: "validate_salary_max (VStr '''') (VStr ''50000'') = Valid"
    using e by (simp add: js_gt_def)
  have h: "target_roles ?d \<noteq> [] \<and> salary_min ?d = VStr ''50000'' \<and> salary_max ?d = VNum (Num 0)"
    by simp
  obtain p where p: "handleSubmit ?d = Some p" "salary_min p = VNum (Num 50000)"
      "salary_max p = VNum (Num 0)"
    using T [THEN conjunct2, THEN conjunct2, rule_format, OF h] by blast
  have "p = onSubmit ?d"
    using p(1) by (simp add: handleSubmit_def split: if_splits)
  then have "p = \<lparr>target_roles = [''Software Engineer''], desired_locations = [], skills = [],
        salary_min = VNum (Num 50000), salary_max = VNum (Num 0)\<rparr>"
    using p(2,3) by (simp add: onSubmit_def)
  with p(1) a f show ?thesis by simp
qed

text \<open>
  C10. When the POST to \<open>/jobs/search\<close> fails, \<open>handleSearch\<close> leaves \<open>results\<close> as they
  were and sets \<open>searchError\<close> to the server's detail message when there is a truthy one,
  to "Failed to fetch job matches." otherwise; when it succeeds, \<open>results\<close> become the
  response data and \<open>searchError\<close> stays cleared; in both paths \<open>searching\<close> ends false.
\<close>

theorem handleSearch_failure_keeps_results:
  "results (handleSearch s (Rejected err)) = results s
   \<and> searchError (handleSearch s (Rejected err)) =
       (if truthy (err_detail err) then err_detail err else VStr ''Failed to fetch job matches.'')
   \<and> searchError (handleSearch s (Rejected (Detail v))) =
       (if truthy v then v else VStr ''Failed to fetch job matches.'')
   \<and> searchError (handleSearch s (Rejected (Detail (VStr ''Rate limited'')))) = VStr ''Rate limited''
   \<and> searchError (handleSearch s (Rejected (Detail (VStr [])))) = VStr ''Failed to fetch job matches.''
   \<and> searchError (handleSearch s (Rejected (Detail VUndefined))) = VStr ''Failed to fetch job matches.''
   \<and> searchError (handleSearch s (Rejected NoData)) = VStr ''Failed to fetch job matches.''
   \<and> searchError (handleSearch s (Rejected NoResponse)) = VStr ''Failed to fetch job matches.''
   \<and> searching (handleSearch s (Rejected err)) = False
   \<and> searching (handleSearch s (Resolved d)) = False
   \<and> results (handleSearch s (Resolved d)) = d
   \<and> searchError (handleSearch s (Resolved d)) = VStr []"
  by (simp add: handleSearch_def js_or_def)

text \<open>
  A failed search over two displayed results: the server's "Rate limited" becomes the
  error shown, the two results stay, and the spinner is off.
\<close>

theorem handleSearch_failure_keeps_results_witness:
  "handleSearch \<lparr>searching = False, searchError = VStr [], results = [''job-1'', ''job-2'']\<rparr>
       (Rejected (Detail (VStr ''Rate limited'')))
     = \<lparr>searching = False, searchError = VStr ''Rate limited'', results = [''job-1'', ''job-2'']\<rparr>"
proof -
  let ?s = "\<lparr>searching = False, searchError = VStr [], results = [''job-1'', ''job-2'']\<rparr>"
  let ?t = "handleSearch ?s (Rejected (Detail (VStr ''Rate limited'')))"
  note T = handleSearch_failure_keeps_results [of ?s "Detail (VStr ''Rate limited'')"]
  have "results ?t = results ?s"
    using T by blast
  moreover have "searchError ?t = VStr ''Rate limited''"
    using T by blast
  moreover have "searching ?t = False"
    using T by blast
  ultimately have "?t = \<lparr>searching = False, searchError = VStr ''Rate limited'', results = results ?s\<rparr>"
    by (cases ?t) simp
  then show ?thesis by simp
qed

end
